theory Spec2Isabelle
  imports Complex_Main
begin

section \<open>Interval-based anomaly detection (sktime/forecasting/anomaly_detector.py)\<close>

text \<open>
  The module defines one class, \<^verbatim>\<open>IntervalBasedAnomalyDetector\<close>: a constructor that
  validates a forecaster template and a coverage, \<^verbatim>\<open>_fit\<close>, which clones the template and
  fits the clone, and \<^verbatim>\<open>_predict\<close> / \<^verbatim>\<open>_predict_proba\<close>, which ask the fitted clone for
  prediction intervals and turn them into labels and scores cell by cell.
\<close>

subsection \<open>float64 values and rounding\<close>

text \<open>
  A float64 cell is a finite number, one of the two infinities, or NaN. The finite result
  of an arithmetic operation is the exact real result rounded as IEEE 754 binary64 rounds
  in its default mode: to the nearest number with a 53-bit significand, a tie to the one
  with the even significand, with gradual underflow below \<open>2 ^ - 1022\<close> and overflow to
  an infinity when the rounded magnitude reaches \<open>2 ^ 1024\<close>. \<^verbatim>\<open>np.exp\<close> is taken as
  correctly rounded. Negation, absolute value and the comparisons are exact. A division
  by zero gives an infinity or NaN and never raises, NaN goes through every operation, and
  every comparison with NaN is false. Two things are not represented: the sign of a zero
  (a quotient by a zero is taken as a quotient by \<open>+0\<close>) and which NaN a NaN is. The
  numbers a caller passes in are not required to be float64 numbers.
\<close>

text \<open>The nearest integer, a tie going to the even one.\<close>

definition round_half_even :: "real \<Rightarrow> int" where
  "round_half_even y =
     (let f = \<lfloor>y\<rfloor> in
      if y - of_int f < 1 / 2 then f
      else if 1 / 2 < y - of_int f then f + 1
      else if even f then f else f + 1)"

text \<open>
  The binary exponent \<open>e\<close> of \<open>x\<close>, with \<open>2 ^ e \<le> \<bar>x\<bar> < 2 ^ (e + 1)\<close>, but not below
  the exponent of the subnormal numbers; the spacing of the float64 numbers of that
  exponent; and the multiple of the spacing nearest to \<open>x\<close>.
\<close>

definition binade :: "real \<Rightarrow> int" where
  "binade x = (if x = 0 then - 1022 else max \<lfloor>log 2 \<bar>x\<bar>\<rfloor> (- 1022))"

definition ulp :: "real \<Rightarrow> real" where
  "ulp x = 2 powr of_int (binade x - 52)"

definition nearest :: "real \<Rightarrow> real" where
  "nearest x = of_int (round_half_even (x / ulp x)) * ulp x"

datatype npfloat = Fin real | PInf | NInf | NaN

text \<open>Rounding a real result to float64.\<close>

definition round64 :: "real \<Rightarrow> npfloat" where
  "round64 x =
     (if 2 ^ 1024 \<le> \<bar>nearest x\<bar> then (if 0 < x then PInf else NInf) else Fin (nearest x))"

text \<open>The operations of numpy the module uses, on one cell.\<close>

fun np_neg :: "npfloat \<Rightarrow> npfloat" where
  "np_neg (Fin a) = Fin (- a)"
| "np_neg PInf = NInf"
| "np_neg NInf = PInf"
| "np_neg NaN = NaN"

fun np_abs :: "npfloat \<Rightarrow> npfloat" where
  "np_abs (Fin a) = Fin \<bar>a\<bar>"
| "np_abs PInf = PInf"
| "np_abs NInf = PInf"
| "np_abs NaN = NaN"

fun np_add :: "npfloat \<Rightarrow> npfloat \<Rightarrow> npfloat" where
  "np_add (Fin a) (Fin b) = round64 (a + b)"
| "np_add NaN y = NaN"
| "np_add x NaN = NaN"
| "np_add PInf NInf = NaN"
| "np_add NInf PInf = NaN"
| "np_add PInf y = PInf"
| "np_add x PInf = PInf"
| "np_add NInf y = NInf"
| "np_add x NInf = NInf"

definition np_sub :: "npfloat \<Rightarrow> npfloat \<Rightarrow> npfloat" where
  "np_sub x y = np_add x (np_neg y)"

fun np_div :: "npfloat \<Rightarrow> npfloat \<Rightarrow> npfloat" where
  "np_div (Fin a) (Fin b) =
     (if b = 0 then (if a = 0 then NaN else if 0 < a then PInf else NInf)
      else round64 (a / b))"
| "np_div NaN y = NaN"
| "np_div x NaN = NaN"
| "np_div (Fin a) PInf = Fin 0"
| "np_div (Fin a) NInf = Fin 0"
| "np_div PInf (Fin b) = (if 0 \<le> b then PInf else NInf)"
| "np_div NInf (Fin b) = (if 0 \<le> b then NInf else PInf)"
| "np_div x y = NaN"

fun np_exp :: "npfloat \<Rightarrow> npfloat" where
  "np_exp (Fin a) = round64 (exp a)"
| "np_exp PInf = PInf"
| "np_exp NInf = Fin 0"
| "np_exp NaN = NaN"

fun np_lt :: "npfloat \<Rightarrow> npfloat \<Rightarrow> bool" where
  "np_lt (Fin a) (Fin b) = (a < b)"
| "np_lt NaN y = False"
| "np_lt x NaN = False"
| "np_lt x NInf = False"
| "np_lt PInf y = False"
| "np_lt NInf y = True"
| "np_lt x PInf = True"

definition np_gt :: "npfloat \<Rightarrow> npfloat \<Rightarrow> bool" where
  "np_gt x y = np_lt y x"

text \<open>numpy's \<^verbatim>\<open><=\<close>, used to state bounds.\<close>

definition np_le :: "npfloat \<Rightarrow> npfloat \<Rightarrow> bool" where
  "np_le x y = (x \<noteq> NaN \<and> y \<noteq> NaN \<and> \<not> np_lt y x)"

subsection \<open>Tables, errors, objects\<close>

text \<open>
  A pandas table: its row index (time points), its column labels (channels) and its
  cells. The label alignment pandas performs between two tables is not modelled: the
  bounds a forecaster returns are keyed by time point and channel like the query.
\<close>

record 'a frame =
  index :: "int list"
  columns :: "string list"
  cell :: "int \<Rightarrow> string \<Rightarrow> 'a"

text \<open>
  The table \<^verbatim>\<open>predict_interval\<close> returns has one column per channel and bound name
  (\<^verbatim>\<open>"lower"\<close>, \<^verbatim>\<open>"upper"\<close>) in the last column level; \<^verbatim>\<open>xs(name, level=-1, axis=1)\<close>
  selects the columns of one bound.
\<close>

type_synonym pred_int = "int \<Rightarrow> string \<times> string \<Rightarrow> npfloat"

definition xs :: "string \<Rightarrow> pred_int \<Rightarrow> int \<Rightarrow> string \<Rightarrow> npfloat" where
  "xs key pred_int = (\<lambda>t c. pred_int t (c, key))"

datatype error =
    ValueError string
  | NotFittedError
  | AttributeError string
  | CollaboratorError string

text \<open>
  A fitted forecaster answers interval queries: horizon and coverage to a table of bounds,
  or a failure of its own.
\<close>

type_synonym fitted_model = "int list \<Rightarrow> npfloat \<Rightarrow> string + pred_int"

text \<open>
  An object the constructor can be handed. \<open>is_base_forecaster\<close> is what
  \<^verbatim>\<open>isinstance(forecaster, BaseForecaster)\<close> answers, \<open>pred_int_tag\<close> what
  \<^verbatim>\<open>get_tag("capability:pred_int")\<close> answers, \<open>fit_method\<close> what fitting on a
  history learns (or the failure it raises), \<open>fitted\<close> the learnt state, absent
  until the object is fitted.
\<close>

record pyobj =
  is_base_forecaster :: bool
  pred_int_tag :: bool
  fit_method :: "npfloat frame \<Rightarrow> string + fitted_model"
  fitted :: "fitted_model option"

text \<open>Objects live in a store; a reference is a position in it.\<close>

type_synonym addr = nat
type_synonym heap = "pyobj list"

text \<open>
  Modelled from the spec: the collaborator's \<^verbatim>\<open>clone() -> IndependentInstance\<close>, whose
  code is not part of the module. It allocates a new object with the same configuration
  and no fitted state, and leaves every existing object as it is.
\<close>

definition clone :: "heap \<Rightarrow> addr \<Rightarrow> addr \<times> heap" where
  "clone h a = (length h, h @ [(h ! a)\<lparr>fitted := None\<rparr>])"

text \<open>
  Modelled from the spec: the collaborator's \<^verbatim>\<open>fit(TimeSeries) -> FittedInstance\<close>. It
  writes the learnt state into the receiver only; a failure is raised unchanged.
\<close>

definition forecaster_fit :: "npfloat frame \<Rightarrow> addr \<Rightarrow> heap \<Rightarrow> (error + unit) \<times> heap" where
  "forecaster_fit X a h =
     (case fit_method (h ! a) X of
        Inl msg \<Rightarrow> (Inl (CollaboratorError msg), h)
      | Inr m \<Rightarrow> (Inr (), h[a := (h ! a)\<lparr>fitted := Some m\<rparr>]))"

text \<open>
  Modelled from the spec: the collaborator's
  \<^verbatim>\<open>predict_interval(time_indices, coverage) -> (lower, upper)\<close>. An object that was
  never fitted refuses; a failure of the fitted model is raised unchanged.
\<close>

definition predict_interval :: "pyobj \<Rightarrow> int list \<Rightarrow> npfloat \<Rightarrow> error + pred_int" where
  "predict_interval obj fh cov =
     (case fitted obj of
        None \<Rightarrow> Inl NotFittedError
      | Some m \<Rightarrow> (case m fh cov of Inl msg \<Rightarrow> Inl (CollaboratorError msg) | Inr p \<Rightarrow> Inr p))"

subsection \<open>The detector\<close>

text \<open>
  The attributes of a detector instance: \<open>forecaster\<close> and \<open>coverage\<close> are set
  by the constructor, \<open>fitted_forecaster\<close> is the attribute \<^verbatim>\<open>forecaster_\<close>, which
  exists only once \<^verbatim>\<open>_fit\<close> has run, and \<open>is_fitted\<close> is the flag the base class keeps.
\<close>

record detector =
  forecaster :: addr
  coverage :: npfloat
  fitted_forecaster :: "addr option"
  is_fitted :: bool

text \<open>
  \<^verbatim>\<open>__init__\<close>: three checks in the order of the source, then the two assignments. The
  store is returned as well, so that what construction does to the template is visible.
\<close>

definition init :: "heap \<Rightarrow> addr \<Rightarrow> npfloat \<Rightarrow> (error + detector) \<times> heap" where
  "init h fc cov =
     (if \<not> is_base_forecaster (h ! fc) then
        (Inl (ValueError ''forecaster must be a BaseForecaster instance''), h)
      else if \<not> pred_int_tag (h ! fc) then
        (Inl (ValueError ''forecaster must support prediction intervals''), h)
      else if \<not> (np_lt (Fin 0) cov \<and> np_lt cov (Fin 1)) then
        (Inl (ValueError ''coverage must be between 0 and 1''), h)
      else
        (Inr \<lparr>forecaster = fc, coverage = cov, fitted_forecaster = None, is_fitted = False\<rparr>, h))"

text \<open>
  \<^verbatim>\<open>_fit\<close>: the clone is stored in \<^verbatim>\<open>forecaster_\<close> before it is fitted, so the attribute
  is set even when fitting the clone raises.
\<close>

definition private_fit ::
  "npfloat frame \<Rightarrow> detector \<times> heap \<Rightarrow> (error + unit) \<times> (detector \<times> heap)" where
  "private_fit X s =
     (case s of (d, h) \<Rightarrow>
        (case clone h (forecaster d) of (a, h1) \<Rightarrow>
           let d1 = d\<lparr>fitted_forecaster := Some a\<rparr> in
           (case forecaster_fit X a h1 of
              (Inl e, h2) \<Rightarrow> (Inl e, (d1, h2))
            | (Inr u, h2) \<Rightarrow> (Inr (), (d1, h2)))))"

text \<open>\<^verbatim>\<open>_predict\<close>: reading \<^verbatim>\<open>self.forecaster_\<close> before a fit is an AttributeError.\<close>

definition private_predict :: "npfloat frame \<Rightarrow> detector \<times> heap \<Rightarrow> error + int frame" where
  "private_predict X s =
     (case s of (d, h) \<Rightarrow>
        (case fitted_forecaster d of
           None \<Rightarrow> Inl (AttributeError ''forecaster_'')
         | Some a \<Rightarrow>
             (case predict_interval (h ! a) (index X) (coverage d) of
                Inl e \<Rightarrow> Inl e
              | Inr pred_int \<Rightarrow>
                  let lower = xs ''lower'' pred_int;
                      upper = xs ''upper'' pred_int;
                      anomalies = (\<lambda>t c. np_lt (cell X t c) (lower t c) \<or> np_gt (cell X t c) (upper t c))
                  in Inr \<lparr>index = index X, columns = columns X,
                          cell = (\<lambda>t c. if anomalies t c then 1 else 0)\<rparr>)))"

text \<open>\<^verbatim>\<open>_predict_proba\<close>: the same interval query, then the score of each cell.\<close>

definition private_predict_proba ::
  "npfloat frame \<Rightarrow> detector \<times> heap \<Rightarrow> error + npfloat frame" where
  "private_predict_proba X s =
     (case s of (d, h) \<Rightarrow>
        (case fitted_forecaster d of
           None \<Rightarrow> Inl (AttributeError ''forecaster_'')
         | Some a \<Rightarrow>
             (case predict_interval (h ! a) (index X) (coverage d) of
                Inl e \<Rightarrow> Inl e
              | Inr pred_int \<Rightarrow>
                  let lower = xs ''lower'' pred_int;
                      upper = xs ''upper'' pred_int;
                      center = (\<lambda>t c. np_div (np_add (upper t c) (lower t c)) (Fin 2));
                      width = (\<lambda>t c. np_sub (upper t c) (lower t c));
                      z_scores = (\<lambda>t c. np_div (np_abs (np_sub (cell X t c) (center t c)))
                                               (np_div (width t c) (Fin 2)));
                      probs = (\<lambda>t c. np_div (Fin 1)
                                 (np_add (Fin 1) (np_exp (np_neg (np_sub (z_scores t c) (Fin 1))))))
                  in Inr \<lparr>index = index X, columns = columns X, cell = probs\<rparr>)))"

text \<open>Reading one cell of a returned table; a raised error stays the error.\<close>

definition cell_at :: "error + 'a frame \<Rightarrow> int \<Rightarrow> string \<Rightarrow> error + 'a" where
  "cell_at r t c = (case r of Inl e \<Rightarrow> Inl e | Inr Y \<Rightarrow> Inr (cell Y t c))"

subsection \<open>The public methods of the base class\<close>

text \<open>
  Modelled from the spec: the public \<^verbatim>\<open>fit\<close>, \<^verbatim>\<open>predict\<close> and \<^verbatim>\<open>predict_proba\<close> are
  inherited from \<^verbatim>\<open>BaseClassifier\<close>, whose code is not part of the module. Following
  the spec (4.2 and 7), a successful \<^verbatim>\<open>fit\<close> moves the detector to the fitted state, and
  every call of the predict family before that fails with \<^verbatim>\<open>NotFittedError\<close>.
\<close>

definition fit ::
  "npfloat frame \<Rightarrow> detector \<times> heap \<Rightarrow> (error + unit) \<times> (detector \<times> heap)" where
  "fit X s =
     (case private_fit X s of
        (Inl e, s') \<Rightarrow> (Inl e, s')
      | (Inr u, (d', h')) \<Rightarrow> (Inr (), (d'\<lparr>is_fitted := True\<rparr>, h')))"



subsection \<open>The score of one cell\<close>

text \<open>
  Names for what \<^verbatim>\<open>_predict_proba\<close> computes at one cell: \<open>z_score\<close> is
  \<^verbatim>\<open>np.abs(X - center) / (width / 2)\<close> with \<^verbatim>\<open>center = (upper + lower) / 2\<close> and
  \<^verbatim>\<open>width = upper - lower\<close> (lines 122 to 124), and \<open>logistic\<close> is
  \<^verbatim>\<open>1 / (1 + np.exp(-(z_scores - 1)))\<close> (line 127).
\<close>

definition z_score :: "npfloat \<Rightarrow> npfloat \<Rightarrow> npfloat \<Rightarrow> npfloat" where
  "z_score v lower upper =
     np_div (np_abs (np_sub v (np_div (np_add upper lower) (Fin 2))))
            (np_div (np_sub upper lower) (Fin 2))"

definition logistic :: "npfloat \<Rightarrow> npfloat" where
  "logistic z = np_div (Fin 1) (np_add (Fin 1) (np_exp (np_neg (np_sub z (Fin 1)))))"

subsection \<open>Concrete inputs\<close>

text \<open>
  A forecaster that declares the interval capability and, once fitted, answers every
  query with the same interval \<open>[lo, hi]\<close>; an object of another class that carries the
  same tag; a one-channel query; and the detector state reached by constructing on a
  template and fitting.
\<close>

definition flat_forecaster :: "real \<Rightarrow> real \<Rightarrow> pyobj" where
  "flat_forecaster lo hi =
     \<lparr>is_base_forecaster = True, pred_int_tag = True,
      fit_method = (\<lambda>X. Inr (\<lambda>fh cov. Inr (\<lambda>t k. if snd k = ''lower'' then Fin lo else Fin hi))),
      fitted = None\<rparr>"

definition tagged_other :: pyobj where
  "tagged_other = (flat_forecaster 0 1)\<lparr>is_base_forecaster := False\<rparr>"

definition series :: "real list \<Rightarrow> npfloat frame" where
  "series vs =
     \<lparr>index = map int [0..<length vs], columns = [''y''],
      cell = (\<lambda>t c. if 0 \<le> t \<and> nat t < length vs \<and> c = ''y'' then Fin (vs ! nat t) else NaN)\<rparr>"

definition unfitted_state :: "real \<Rightarrow> real \<Rightarrow> detector \<times> heap" where
  "unfitted_state lo hi =
     (\<lparr>forecaster = 0, coverage = Fin (95 / 100), fitted_forecaster = None, is_fitted = False\<rparr>,
      [flat_forecaster lo hi])"

definition fitted_state :: "real \<Rightarrow> real \<Rightarrow> detector \<times> heap" where
  "fitted_state lo hi = snd (fit (series [10, 11, 9, 10, 12, 50]) (unfitted_state lo hi))"

section \<open>Rounding\<close>

text \<open>
  Facts about the rounding: it is monotone and odd, it leaves the float64 numbers as they
  are, and it can be evaluated once the binary exponent of its argument is known. The
  operations inherit the monotonicity.
\<close>

lemma rhe_low: "of_int n \<le> y \<Longrightarrow> y < of_int n + 1 / 2 \<Longrightarrow> round_half_even y = n"
proof -
  assume a: "of_int n \<le> y" "y < of_int n + 1 / 2"
  then have "\<lfloor>y\<rfloor> = n" by linarith
  with a show ?thesis by (simp add: round_half_even_def)
qed


lemma rhe_tie: "y = of_int n + 1 / 2 \<Longrightarrow> round_half_even y = (if even n then n else n + 1)"
proof -
  assume a: "y = of_int n + 1 / 2"
  then have "\<lfloor>y\<rfloor> = n" by linarith
  with a show ?thesis by (simp add: round_half_even_def)
qed

lemma rhe_of_int: "round_half_even (of_int n) = n"
  by (rule rhe_low) simp_all

lemma rhe_bounds: "\<lfloor>y\<rfloor> \<le> round_half_even y \<and> round_half_even y \<le> \<lfloor>y\<rfloor> + 1"
  by (simp add: round_half_even_def Let_def)

lemma rhe_mono: "x \<le> y \<Longrightarrow> round_half_even x \<le> round_half_even y"
proof -
  assume xy: "x \<le> y"
  then have f: "\<lfloor>x\<rfloor> \<le> \<lfloor>y\<rfloor>" by (rule floor_mono)
  show ?thesis
  proof (cases "\<lfloor>x\<rfloor> = \<lfloor>y\<rfloor>")
    case True
    with xy show ?thesis by (auto simp: round_half_even_def Let_def)
  next
    case False
    with f have "\<lfloor>x\<rfloor> + 1 \<le> \<lfloor>y\<rfloor>" by simp
    with rhe_bounds [of x] rhe_bounds [of y] show ?thesis by linarith
  qed
qed

lemma rhe_minus: "round_half_even (- y) = - round_half_even y"
proof (cases "y = of_int \<lfloor>y\<rfloor>")
  case True
  then obtain n where "y = of_int n" ..
  then show ?thesis using rhe_of_int [of n] rhe_of_int [of "- n"] by simp
next
  case False
  then have fl: "\<lfloor>- y\<rfloor> = - \<lfloor>y\<rfloor> - 1"
    by (metis ceiling_altdef ceiling_def minus_diff_eq uminus_add_conv_diff minus_minus)
  have "of_int \<lfloor>y\<rfloor> < y" using False by (metis floor_correct order_less_le)
  then show ?thesis
    unfolding round_half_even_def Let_def fl by (auto simp: )
qed

lemma ulp_pos: "0 < ulp x"
  by (simp add: ulp_def)

lemma binade_minus: "binade (- x) = binade x"
  by (simp add: binade_def)

lemma ulp_minus: "ulp (- x) = ulp x"
  by (simp add: ulp_def binade_minus)

lemma nearest_minus: "nearest (- x) = - nearest x"
  by (simp add: nearest_def ulp_minus rhe_minus)

lemma binade_ge: "- 1022 \<le> binade x"
  by (simp add: binade_def)

lemma binade_upper: "\<bar>x\<bar> < 2 powr of_int (binade x + 1)"
proof (cases "x = 0")
  case True
  then show ?thesis by simp
next
  case False
  then have pos: "0 < \<bar>x\<bar>" by simp
  have "log 2 \<bar>x\<bar> < of_int (\<lfloor>log 2 \<bar>x\<bar>\<rfloor> + 1)" by linarith
  also have "\<dots> \<le> of_int (binade x + 1)"
    using False by (simp add: binade_def)
  finally have "log 2 \<bar>x\<bar> < of_int (binade x + 1)" .
  then show ?thesis
    using pos by (simp add: log_less_iff)
qed

lemma binade_lower: "- 1022 < binade x \<Longrightarrow> 2 powr of_int (binade x) \<le> \<bar>x\<bar>"
proof -
  assume a: "- 1022 < binade x"
  then have nz: "x \<noteq> 0" by (auto simp: binade_def)
  with a have "binade x = \<lfloor>log 2 \<bar>x\<bar>\<rfloor>" by (auto simp: binade_def max_def split: if_splits)
  then have "of_int (binade x) \<le> log 2 \<bar>x\<bar>" by simp
  then show ?thesis using nz by (simp add: le_log_iff)
qed

lemma binade_eqI:
  assumes "2 powr of_int e \<le> \<bar>x\<bar>" and "\<bar>x\<bar> < 2 powr of_int (e + 1)" and "- 1022 \<le> e"
  shows "binade x = e"
proof -
  have pos: "0 < \<bar>x\<bar>" using assms(1) by (smt (verit) powr_gt_zero)
  then have "\<lfloor>log 2 \<bar>x\<bar>\<rfloor> = e"
    using assms(1,2) by (simp add: floor_log_eq_powr_iff)
  with pos assms(3) show ?thesis by (auto simp: binade_def)
qed

lemma binade_mono: "\<bar>x\<bar> \<le> \<bar>y\<bar> \<Longrightarrow> binade x \<le> binade y"
proof (cases "x = 0")
  case True
  then show ?thesis by (simp add: binade_ge binade_def)
next
  case False
  assume a: "\<bar>x\<bar> \<le> \<bar>y\<bar>"
  with False have "y \<noteq> 0" by auto
  have "log 2 \<bar>x\<bar> \<le> log 2 \<bar>y\<bar>" using a False by simp
  then have "\<lfloor>log 2 \<bar>x\<bar>\<rfloor> \<le> \<lfloor>log 2 \<bar>y\<bar>\<rfloor>" by (rule floor_mono)
  with False \<open>y \<noteq> 0\<close> show ?thesis by (simp add: binade_def)
qed

lemma ulp_times: "2 ^ 52 * ulp x = 2 powr of_int (binade x)" "2 ^ 53 * ulp x = 2 powr of_int (binade x + 1)"
proof -
  have a: "(2::real) powr (of_int (binade x) - 52) * 2 powr 52 = 2 powr of_int (binade x)"
    by (simp only: powr_add [symmetric]) simp
  have "of_int (binade x) - 52 + 53 = (of_int (binade x + 1) :: real)" by simp
  then have b: "(2::real) powr (of_int (binade x) - 52) * 2 powr 53 = 2 powr of_int (binade x + 1)"
    by (simp only: powr_add [symmetric])
  show "2 ^ 52 * ulp x = 2 powr of_int (binade x)"
    using a by (simp add: ulp_def mult.commute)
  show "2 ^ 53 * ulp x = 2 powr of_int (binade x + 1)"
    using b by (simp add: ulp_def mult.commute)
qed

lemma nearest_nonneg: "0 \<le> x \<Longrightarrow> 0 \<le> nearest x"
proof -
  assume "0 \<le> x"
  then have "of_int 0 \<le> x / ulp x" using ulp_pos [of x] by simp
  then have "round_half_even (of_int 0) \<le> round_half_even (x / ulp x)" by (rule rhe_mono)
  then have "0 \<le> round_half_even (x / ulp x)" by (simp only: rhe_of_int)
  then show ?thesis using ulp_pos [of x] by (simp add: nearest_def)
qed

lemma nearest_upper: "0 \<le> x \<Longrightarrow> nearest x \<le> 2 powr of_int (binade x + 1)"
proof -
  assume "0 \<le> x"
  then have "x < 2 ^ 53 * ulp x" using binade_upper [of x] unfolding ulp_times(2) [symmetric] by simp
  then have "x / ulp x \<le> of_int (2 ^ 53)" using ulp_pos [of x] by (simp add: field_simps)
  then have "round_half_even (x / ulp x) \<le> round_half_even (of_int (2 ^ 53))" by (rule rhe_mono)
  then have "round_half_even (x / ulp x) \<le> 2 ^ 53" by (simp only: rhe_of_int)
  then have "of_int (round_half_even (x / ulp x)) \<le> (2::real) ^ 53"
    by (metis of_int_le_iff of_int_numeral of_int_power)
  then have "nearest x \<le> 2 ^ 53 * ulp x"
    using ulp_pos [of x] by (simp add: nearest_def)
  then show ?thesis unfolding ulp_times(2) .
qed

lemma nearest_lower:
  assumes "0 \<le> x" and "- 1022 < binade x"
  shows "2 powr of_int (binade x) \<le> nearest x"
proof -
  have "2 ^ 52 * ulp x \<le> x" using binade_lower [OF assms(2)] assms(1) unfolding ulp_times(1) [symmetric] by simp
  then have "of_int (2 ^ 52) \<le> x / ulp x" using ulp_pos [of x] by (simp add: field_simps)
  then have "round_half_even (of_int (2 ^ 52)) \<le> round_half_even (x / ulp x)" by (rule rhe_mono)
  then have "2 ^ 52 \<le> round_half_even (x / ulp x)" by (simp only: rhe_of_int)
  then have "(2::real) ^ 52 \<le> of_int (round_half_even (x / ulp x))"
    by (metis of_int_le_iff of_int_numeral of_int_power)
  then have "2 ^ 52 * ulp x \<le> nearest x"
    using ulp_pos [of x] by (simp add: nearest_def)
  then show ?thesis unfolding ulp_times(1) .
qed

lemma nearest_mono_nonneg:
  assumes "0 \<le> x" and "x \<le> y"
  shows "nearest x \<le> nearest y"
proof -
  have b: "binade x \<le> binade y" using assms by (intro binade_mono) simp
  show ?thesis
  proof (cases "binade x = binade y")
    case True
    then have u: "ulp x = ulp y" by (simp add: ulp_def)
    have "x / ulp y \<le> y / ulp y" using assms ulp_pos [of y] by (simp add: divide_right_mono)
    then have "round_half_even (x / ulp y) \<le> round_half_even (y / ulp y)" by (rule rhe_mono)
    then show ?thesis using ulp_pos [of y] by (simp add: nearest_def u)
  next
    case False
    with b have lt: "binade x + 1 \<le> binade y" by simp
    then have "- 1022 < binade y" using binade_ge [of x] by linarith
    then have "2 powr of_int (binade y) \<le> nearest y"
      using assms by (intro nearest_lower) simp_all
    moreover have "nearest x \<le> 2 powr of_int (binade x + 1)"
      using assms(1) by (rule nearest_upper)
    moreover have "(2::real) powr of_int (binade x + 1) \<le> 2 powr of_int (binade y)"
      using lt by simp
    ultimately show ?thesis by linarith
  qed
qed

lemma nearest_mono: "x \<le> y \<Longrightarrow> nearest x \<le> nearest y"
proof -
  assume xy: "x \<le> y"
  consider "0 \<le> x" | "x < 0" "0 \<le> y" | "y < 0" using xy by linarith
  then show ?thesis
  proof cases
    case 1
    then show ?thesis using xy by (rule nearest_mono_nonneg)
  next
    case 2
    then have "0 \<le> nearest (- x)" "0 \<le> nearest y" by (simp_all add: nearest_nonneg)
    then show ?thesis by (simp add: nearest_minus)
  next
    case 3
    then have "nearest (- y) \<le> nearest (- x)" using xy by (intro nearest_mono_nonneg) simp_all
    then show ?thesis by (simp add: nearest_minus)
  qed
qed

lemma nearest_eval:
  assumes "2 powr of_int e \<le> \<bar>x\<bar>" and "\<bar>x\<bar> < 2 powr of_int (e + 1)" and "- 1022 \<le> e"
  shows "nearest x = of_int (round_half_even (x / 2 powr of_int (e - 52))) * 2 powr of_int (e - 52)"
  by (simp add: nearest_def ulp_def binade_eqI [OF assms])

lemma nearest_exact:
  assumes x: "x = of_int m * 2 powr of_int k" and m: "\<bar>m\<bar> < 2 ^ 53" and k: "- 1074 \<le> k"
  shows "nearest x = x"
proof -
  have le: "binade x - 52 \<le> k"
  proof (cases "- 1022 < binade x")
    case True
    then have "2 powr of_int (binade x) \<le> \<bar>x\<bar>" by (rule binade_lower)
    moreover have "\<bar>x\<bar> = \<bar>of_int m\<bar> * 2 powr of_int k" by (simp add: x abs_mult)
    moreover have "\<bar>of_int m :: real\<bar> < 2 ^ 53"
      using m by (metis of_int_abs of_int_less_iff of_int_numeral of_int_power)
    then have "\<bar>of_int m\<bar> * 2 powr of_int k < 2 ^ 53 * (2::real) powr of_int k"
      by simp
    moreover have "2 ^ 53 * (2::real) powr of_int k = 2 powr of_int (k + 53)"
    proof -
      have "(2::real) powr 53 * 2 powr of_int k = 2 powr of_int (k + 53)"
        by (simp only: powr_add [symmetric]) (simp add: add.commute)
      then show ?thesis by simp
    qed
    ultimately have "(2::real) powr of_int (binade x) < 2 powr of_int (k + 53)" by linarith
    then have "binade x < k + 53" by simp
    then show ?thesis by simp
  next
    case False
    then show ?thesis using k binade_ge [of x] by linarith
  qed
  define d where "d = nat (k - (binade x - 52))"
  have kd: "of_int k = of_int (binade x - 52) + (of_nat d :: real)"
    using le by (simp add: d_def)
  have "2 powr of_int k = 2 powr of_int (binade x - 52) * (2::real) ^ d"
    unfolding kd powr_add by (simp add: powr_realpow)
  then have "real_of_int m * 2 powr of_int k = of_int (m * 2 ^ d) * 2 powr of_int (binade x - 52)"
    by simp
  then have xu: "x = of_int (m * 2 ^ d) * ulp x"
    using x by (simp only: ulp_def)
  then have "x / ulp x = of_int (m * 2 ^ d)"
    using ulp_pos [of x] by (metis nonzero_eq_divide_eq order_less_irrefl)
  then have "round_half_even (x / ulp x) = m * 2 ^ d"
    by (simp only: rhe_of_int)
  then show ?thesis
    unfolding nearest_def using xu by simp
qed

lemma np_le_simps:
  "np_le (Fin a) (Fin b) = (a \<le> b)"
  "np_le NaN y = False" "np_le x NaN = False"
  "np_le NInf y = (y \<noteq> NaN)" "np_le x PInf = (x \<noteq> NaN)"
  "np_le (Fin a) NInf = False" "np_le PInf (Fin b) = False"
  "np_le PInf NInf = False"
  by (cases x; cases y; auto simp: np_le_def)+

lemma np_le_trans: "np_le x y \<Longrightarrow> np_le y z \<Longrightarrow> np_le x z"
  by (cases x; cases y; cases z) (simp_all add: np_le_simps)

lemma np_le_antisym: "np_le x y \<Longrightarrow> np_le y x \<Longrightarrow> x = y"
  by (cases x; cases y) (simp_all add: np_le_simps)

lemma round64_not_nan: "round64 x \<noteq> NaN"
  by (simp add: round64_def)

lemma nearest_zero: "nearest 0 = 0"
  using nearest_exact [of 0 0 0] by simp

lemma nearest_pos_imp: "0 < nearest x \<Longrightarrow> 0 < x"
  using nearest_mono [of x 0] by (cases "0 < x") (simp_all add: nearest_zero)

lemma nearest_neg_imp: "nearest x < 0 \<Longrightarrow> x < 0"
  using nearest_mono [of 0 x] by (cases "x < 0") (simp_all add: nearest_zero)

lemma round64_mono: "x \<le> y \<Longrightarrow> np_le (round64 x) (round64 y)"
proof -
  assume "x \<le> y"
  then have n: "nearest x \<le> nearest y" by (rule nearest_mono)
  have p: "(2::real) ^ 1024 > 0" by simp
  show ?thesis
    using n p nearest_pos_imp [of x] nearest_pos_imp [of y] nearest_neg_imp [of x] nearest_neg_imp [of y]
    unfolding round64_def
    by (auto simp: abs_if np_le_simps split: if_splits)
qed

lemma round64_minus: "round64 (- x) = np_neg (round64 x)"
  using nearest_pos_imp [of x] nearest_neg_imp [of x]
  by (auto simp: round64_def nearest_minus abs_if split: if_splits)

lemma round64_exact:
  assumes "x = of_int m * 2 powr of_int k" and "\<bar>m\<bar> < 2 ^ 53" and "- 1074 \<le> k" and "k \<le> 971"
  shows "round64 x = Fin x"
proof -
  have nx: "nearest x = x" by (rule nearest_exact [OF assms(1-3)])
  have m: "\<bar>of_int m :: real\<bar> < 2 ^ 53"
    using assms(2) by (metis of_int_abs of_int_less_iff of_int_numeral of_int_power)
  have "(2::real) powr of_int k \<le> 2 powr (real 971)"
    using assms(4) by (intro powr_mono) simp_all
  moreover have "(2::real) powr (real 971) = 2 ^ 971"
    by (rule powr_realpow) simp
  ultimately have "(2::real) powr of_int k \<le> 2 ^ 971"
    by (simp only:)
  with m have "\<bar>of_int m\<bar> * 2 powr of_int k < 2 ^ 53 * (2::real) ^ 971"
    by (intro mult_less_le_imp_less) simp_all
  then have "\<bar>x\<bar> < 2 ^ 1024"
    by (simp add: assms(1) abs_mult)
  then show ?thesis by (simp add: round64_def nx)
qed

lemma round64_int: "\<bar>m\<bar> < 2 ^ 53 \<Longrightarrow> round64 (of_int m) = Fin (of_int m)"
  by (rule round64_exact [where m = m and k = 0]) simp_all

lemma round64_zero: "round64 0 = Fin 0"
  using round64_int [of 0] by simp

lemma round64_one: "round64 1 = Fin 1"
  using round64_int [of 1] by simp

lemma round64_neg_one: "round64 (- 1) = Fin (- 1)"
  using round64_int [of "- 1"] by simp

lemma round64_numeral:
  "(numeral n :: int) < 2 ^ 53 \<Longrightarrow> round64 (numeral n) = Fin (numeral n)"
  using round64_int [of "numeral n"] by simp

lemma round64_neg_numeral:
  "(numeral n :: int) < 2 ^ 53 \<Longrightarrow> round64 (- numeral n) = Fin (- numeral n)"
  using round64_int [of "- numeral n"] by simp

lemma round64_half: "round64 (1 / 2) = Fin (1 / 2)"
  by (rule round64_exact [where m = 1 and k = "- 1"]) (simp_all add: powr_minus field_simps)

lemmas float_simps =
  np_le_simps round64_not_nan nearest_zero round64_zero round64_one round64_neg_one
  round64_numeral round64_neg_numeral round64_half

lemma round64_nonneg: "0 \<le> x \<Longrightarrow> np_le (Fin 0) (round64 x)"
  using round64_mono [of 0 x] by (simp add: float_simps)

lemma round64_le_one: "x \<le> 1 \<Longrightarrow> np_le (round64 x) (Fin 1)"
  using round64_mono [of x 1] by (simp add: float_simps)

lemma np_abs_round64: "np_abs (round64 x) = round64 \<bar>x\<bar>"
proof (cases "0 \<le> x")
  case True
  then show ?thesis
    using round64_nonneg [of x] by (cases "round64 x") (simp_all add: float_simps abs_if)
next
  case False
  then have "np_le (Fin 0) (round64 (- x))" by (intro round64_nonneg) (simp add: float_simps)
  then have "np_abs (round64 (- x)) = round64 (- x)"
    by (cases "round64 (- x)") (simp_all add: float_simps)
  moreover have "np_abs (round64 (- x)) = np_abs (round64 x)"
    unfolding round64_minus by (cases "round64 x") (simp_all add: float_simps)
  ultimately show ?thesis using False by (simp add: float_simps abs_if)
qed

lemma np_add_mono_left: "np_le a b \<Longrightarrow> np_le (np_add a (Fin c)) (np_add b (Fin c))"
  by (cases a; cases b) (simp_all add: float_simps round64_mono)

lemma np_add_mono_right: "np_le a b \<Longrightarrow> np_le (np_add (Fin c) a) (np_add (Fin c) b)"
  by (cases a; cases b) (simp_all add: float_simps round64_mono)

lemma np_sub_mono_left: "np_le a b \<Longrightarrow> np_le (np_sub a (Fin c)) (np_sub b (Fin c))"
  by (simp add: float_simps np_sub_def np_add_mono_left)

lemma np_neg_anti: "np_le a b \<Longrightarrow> np_le (np_neg b) (np_neg a)"
  by (cases a; cases b) (simp_all add: float_simps)

lemma np_exp_mono: "np_le a b \<Longrightarrow> np_le (np_exp a) (np_exp b)"
  by (cases a; cases b) (simp_all add: float_simps round64_mono round64_nonneg)

lemma np_exp_nonneg: "a \<noteq> NaN \<Longrightarrow> np_le (Fin 0) (np_exp a)"
  by (cases a) (simp_all add: float_simps round64_nonneg)

lemma np_recip_anti:
  assumes "np_le (Fin 1) a" and "np_le a b"
  shows "np_le (np_div (Fin 1) b) (np_div (Fin 1) a)"
proof (cases a)
  case (Fin x)
  with assms(1) have x: "1 \<le> x" by (simp add: float_simps)
  show ?thesis
  proof (cases b)
    case (Fin y)
    with assms(2) \<open>a = Fin x\<close> have "x \<le> y" by (simp add: float_simps)
    with x have "1 / y \<le> 1 / x" by (simp add: float_simps frac_le)
    then show ?thesis using x \<open>x \<le> y\<close> \<open>a = Fin x\<close> Fin by (simp add: float_simps round64_mono)
  next
    case PInf
    then show ?thesis using x \<open>a = Fin x\<close> by (simp add: float_simps round64_nonneg)
  qed (use assms(2) \<open>a = Fin x\<close> in \<open>simp_all add: float_simps\<close>)
next
  case PInf
  then show ?thesis using assms(2) by (cases b) (simp_all add: float_simps)
next
  case NInf
  then show ?thesis using assms(1) by (simp add: float_simps)
next
  case NaN
  then show ?thesis using assms(1) by (simp add: float_simps)
qed

lemma np_recip_range:
  assumes "np_le (Fin 1) a"
  shows "\<exists>p. np_div (Fin 1) a = Fin p \<and> 0 \<le> p \<and> p \<le> 1"
proof (cases a)
  case (Fin x)
  with assms have x: "1 \<le> x" by (simp add: float_simps)
  then have "np_le (Fin 0) (round64 (1 / x))" "np_le (round64 (1 / x)) (Fin 1)"
    by (simp_all add: float_simps round64_nonneg round64_le_one)
  then show ?thesis using x Fin by (cases "round64 (1 / x)") (simp_all add: float_simps)
qed (use assms in \<open>simp_all add: float_simps\<close>)

lemma logistic_denominator: "z \<noteq> NaN \<Longrightarrow> np_le (Fin 1) (np_add (Fin 1) (np_exp (np_neg (np_sub z (Fin 1)))))"
proof -
  assume "z \<noteq> NaN"
  then have "np_neg (np_sub z (Fin 1)) \<noteq> NaN"
    by (cases z) (simp_all add: float_simps np_sub_def round64_def)
  then have "np_le (Fin 0) (np_exp (np_neg (np_sub z (Fin 1))))" by (rule np_exp_nonneg)
  then have "np_le (np_add (Fin 1) (Fin 0)) (np_add (Fin 1) (np_exp (np_neg (np_sub z (Fin 1)))))"
    by (rule np_add_mono_right)
  then show ?thesis by (simp add: float_simps)
qed

lemma logistic_mono: 
  assumes "np_le z1 z2" 
  shows "np_le (logistic z1) (logistic z2)"
proof -
  have nn: "z2 \<noteq> NaN" using assms by (cases z2) (simp_all add: float_simps)
  have "np_le (np_neg (np_sub z2 (Fin 1))) (np_neg (np_sub z1 (Fin 1)))"
    using assms by (intro np_neg_anti np_sub_mono_left)
  then have "np_le (np_add (Fin 1) (np_exp (np_neg (np_sub z2 (Fin 1)))))
                   (np_add (Fin 1) (np_exp (np_neg (np_sub z1 (Fin 1)))))"
    by (intro np_add_mono_right np_exp_mono)
  then show ?thesis
    unfolding logistic_def using logistic_denominator [OF nn] by (intro np_recip_anti)
qed

lemma logistic_range: "z \<noteq> NaN \<Longrightarrow> \<exists>p. logistic z = Fin p \<and> 0 \<le> p \<and> p \<le> 1"
  unfolding logistic_def by (intro np_recip_range logistic_denominator)

lemma np_div_mono_left:
  assumes "0 < w" and "np_le a b"
  shows "np_le (np_div a (Fin w)) (np_div b (Fin w))"
  using assms by (cases a; cases b) (simp_all add: float_simps round64_mono divide_right_mono)


lemma logistic_zero: "logistic (Fin 0) = np_div (Fin 1) (np_add (Fin 1) (np_exp (Fin 1)))"
  by (simp add: float_simps logistic_def np_sub_def)

lemma round64_eval:
  assumes e: "- 1022 \<le> e" and u: "u = 2 powr of_int (e - 52)"
      and lo: "2 ^ 52 * u \<le> \<bar>x\<bar>" and hi: "\<bar>x\<bar> < 2 ^ 53 * u"
      and n: "round_half_even (x / u) = n"
      and fin: "\<bar>of_int n * u\<bar> < 2 ^ 1024"
  shows "round64 x = Fin (of_int n * u)"
proof -
  have a: "(2::real) powr (of_int e - 52) * 2 powr 52 = 2 powr of_int e"
    by (simp only: powr_add [symmetric]) (simp add: float_simps)
  have "of_int e - 52 + 53 = (of_int (e + 1) :: real)" by (simp add: float_simps)
  then have b: "(2::real) powr (of_int e - 52) * 2 powr 53 = 2 powr of_int (e + 1)"
    by (simp only: powr_add [symmetric])
  have "2 powr of_int e \<le> \<bar>x\<bar>" using lo a by (simp add: float_simps u mult.commute)
  moreover have "\<bar>x\<bar> < 2 powr of_int (e + 1)" using hi b by (simp add: float_simps u mult.commute)
  ultimately have "nearest x = of_int (round_half_even (x / u)) * u"
    unfolding u using e by (rule nearest_eval)
  then have "nearest x = of_int n * u" by (simp add: float_simps n)
  then show ?thesis using fin by (simp add: float_simps round64_def)
qed

lemma pow2_neg: "(2::real) powr (- numeral k) = 1 / 2 ^ numeral k"
proof -
  have "(2::real) powr (- numeral k) = inverse (2 powr numeral k)" by (rule powr_minus)
  also have "(2::real) powr numeral k = 2 ^ numeral k" by (rule powr_numeral) (simp add: float_simps)
  finally show ?thesis by (simp only: inverse_eq_divide)
qed

lemma round64_tie_two: "round64 (2 + 1 / 2 ^ 52) = Fin 2"
proof -
  have n: "round_half_even ((2 + 1 / 2 ^ 52) / (1 / 2 ^ 51)) = 2 ^ 52"
    using rhe_tie [of "(2 + 1 / 2 ^ 52) / (1 / 2 ^ 51)" "2 ^ 52"] by (simp add: float_simps)
  have "round64 (2 + 1 / 2 ^ 52) = Fin (of_int (2 ^ 52) * (1 / 2 ^ 51))"
    by (rule round64_eval [where e = 1, OF _ _ _ _ n]) (simp_all add: float_simps pow2_neg)
  then show ?thesis by (simp add: float_simps)
qed


lemma round64_dyadic:
  assumes "\<bar>m\<bar> < 2 ^ 53" and "k \<le> 1074"
  shows "round64 (of_int m / 2 ^ k) = Fin (of_int m / 2 ^ k)"
proof -
  have "(2::real) powr of_int (- int k) = inverse (2 powr (real k))"
    by (simp add: float_simps powr_minus)
  also have "(2::real) powr (real k) = 2 ^ k" by (rule powr_realpow) (simp add: float_simps)
  finally have "of_int m / 2 ^ k = of_int m * (2::real) powr of_int (- int k)"
    by (simp only: divide_inverse)
  then show ?thesis
    by (rule round64_exact) (use assms in \<open>simp_all add: float_simps\<close>)
qed

lemma exp_one_ge_two: "2 \<le> exp (1::real)"
  using exp_ge_add_one_self [of "1::real"] by (simp add: float_simps)

lemma exp_minus_nat_le: "exp (- real n) \<le> 1 / 2 ^ n"
proof -
  have "(2::real) ^ n \<le> exp 1 ^ n"
    using exp_one_ge_two by (intro power_mono) (simp_all add: float_simps)
  also have "\<dots> = exp (real n)"
    using exp_of_nat_mult [of n "1::real"] by (simp add: float_simps)
  finally have "1 / exp (real n) \<le> 1 / 2 ^ n"
    by (intro divide_left_mono) (simp_all add: float_simps)
  then show ?thesis by (simp add: float_simps exp_minus')
qed

lemma round64_one_plus_tiny: "round64 (1 + 1 / 2 ^ 55) = Fin 1"
proof -
  have n: "round_half_even ((1 + 1 / 2 ^ 55) / (1 / 2 ^ 52)) = 2 ^ 52"
    by (rule rhe_low) (simp_all add: float_simps)
  have "round64 (1 + 1 / 2 ^ 55) = Fin (of_int (2 ^ 52) * (1 / 2 ^ 52))"
    by (rule round64_eval [where e = 0, OF _ _ _ _ n]) (simp_all add: float_simps pow2_neg)
  then show ?thesis by (simp add: float_simps)
qed

lemma logistic_saturated: "logistic (Fin 56) = Fin 1"
proof -
  have "exp (- real 55) \<le> 1 / 2 ^ 55" by (rule exp_minus_nat_le)
  then have ub: "exp (- 55 :: real) \<le> 1 / 2 ^ 55" by (simp add: float_simps)
  have "round64 (1 / 2 ^ 55) = Fin (1 / 2 ^ 55)"
    using round64_dyadic [of 1 55] by (simp add: float_simps)
  with round64_mono [OF ub] have "np_le (round64 (exp (- 55))) (Fin (1 / 2 ^ 55))" by (simp add: float_simps)
  moreover have "np_le (Fin 0) (round64 (exp (- 55)))" by (rule round64_nonneg) (simp add: float_simps)
  ultimately obtain r where r: "round64 (exp (- 55)) = Fin r" "0 \<le> r" "r \<le> 1 / 2 ^ 55"
    by (cases "round64 (exp (- 55))") (simp_all add: float_simps)
  have "np_le (round64 1) (round64 (1 + r))" "np_le (round64 (1 + r)) (round64 (1 + 1 / 2 ^ 55))"
    using r(2,3) by (intro round64_mono; simp add: float_simps)+
  then have "round64 (1 + r) = Fin 1"
    unfolding round64_one_plus_tiny round64_one by (rule np_le_antisym [symmetric])
  then show ?thesis
    by (simp add: float_simps logistic_def np_sub_def r)
qed

lemma logistic_far: "np_le (Fin 56) z \<Longrightarrow> logistic z = Fin 1"
proof -
  assume a: "np_le (Fin 56) z"
  then have "z \<noteq> NaN" by (cases z) (simp_all add: float_simps)
  then obtain p where p: "logistic z = Fin p" "p \<le> 1" using logistic_range by blast
  have "np_le (logistic (Fin 56)) (logistic z)" using a by (rule logistic_mono)
  then show ?thesis using p by (simp add: float_simps logistic_saturated)
qed

lemma logistic_two_ge: "np_le (Fin (5 / 8)) (logistic (Fin 2))"
proof -
  have "exp (- real 1) \<le> 1 / 2 ^ 1" by (rule exp_minus_nat_le)
  then have "exp (- 1 :: real) \<le> 1 / 2" by (simp add: float_simps)
  then have "np_le (round64 (exp (- 1))) (Fin (1 / 2))"
    using round64_mono [of "exp (- 1)" "1 / 2"] by (simp add: float_simps)
  then have "np_le (np_add (Fin 1) (round64 (exp (- 1)))) (np_add (Fin 1) (Fin (1 / 2)))"
    by (rule np_add_mono_right)
  moreover have "round64 (1 + 1 / 2) = Fin (3 / 2)"
    using round64_dyadic [of 3 1] by (simp add: float_simps)
  ultimately have le: "np_le (np_add (Fin 1) (round64 (exp (- 1)))) (Fin (3 / 2))" by (simp add: float_simps)
  have ge: "np_le (Fin 1) (np_add (Fin 1) (round64 (exp (- 1))))"
    using logistic_denominator [of "Fin 2"] by (simp add: float_simps np_sub_def)
  have "np_le (np_div (Fin 1) (Fin (3 / 2))) (np_div (Fin 1) (np_add (Fin 1) (round64 (exp (- 1)))))"
    using ge le by (rule np_recip_anti)
  moreover have "np_le (round64 (5 / 8)) (round64 (2 / 3))" by (rule round64_mono) (simp add: float_simps)
  moreover have "round64 (5 / 8) = Fin (5 / 8)" using round64_dyadic [of 5 3] by (simp add: float_simps)
  ultimately have "np_le (Fin (5 / 8)) (np_div (Fin 1) (np_add (Fin 1) (round64 (exp (- 1)))))"
    by (simp add: float_simps np_le_trans)
  then show ?thesis by (simp add: float_simps logistic_def np_sub_def)
qed






lemma exp_one_bounds: "43 / 16 \<le> exp (1::real)" "exp (1::real) \<le> 11 / 4"
proof -
  have "(1 + 1 / real 64) ^ 64 \<le> exp (1::real)"
    by (rule exp_ge_one_plus_x_over_n_power_n) (simp_all add: float_simps)
  moreover have "(43 / 16 :: real) \<le> (1 + 1 / real 64) ^ 64" by (simp add: float_simps power_divide)
  ultimately show "43 / 16 \<le> exp (1::real)" by linarith
  have "exp (1 / 64 :: real) \<le> 1 + 1 / 64 + (1 / 64)\<^sup>2"
    by (rule exp_bound) (simp_all add: float_simps)
  then have "exp (1 / 64 :: real) ^ 64 \<le> (1 + 1 / 64 + (1 / 64)\<^sup>2) ^ 64"
    by (intro power_mono) (simp_all add: float_simps)
  moreover have "exp (1 / 64 :: real) ^ 64 = exp 1"
    using exp_of_nat_mult [of 64 "1 / 64 :: real"] by (simp add: float_simps)
  moreover have "(1 + 1 / 64 + (1 / 64)\<^sup>2) ^ 64 \<le> (11 / 4 :: real)"
    by (simp add: float_simps power_divide power2_eq_square)
  ultimately show "exp (1::real) \<le> 11 / 4" by linarith
qed

lemma logistic_zero_bounds:
  "\<exists>c. logistic (Fin 0) = Fin c \<and> 17 / 64 \<le> c \<and> c \<le> 35 / 128"
proof -
  have r1: "round64 (43 / 16) = Fin (43 / 16)" using round64_dyadic [of 43 4] by simp
  have r2: "round64 (11 / 4) = Fin (11 / 4)" using round64_dyadic [of 11 2] by simp
  have r3: "round64 (59 / 16) = Fin (59 / 16)" using round64_dyadic [of 59 4] by simp
  have r4: "round64 (15 / 4) = Fin (15 / 4)" using round64_dyadic [of 15 2] by simp
  have r5: "round64 (17 / 64) = Fin (17 / 64)" using round64_dyadic [of 17 6] by simp
  have r6: "round64 (35 / 128) = Fin (35 / 128)" using round64_dyadic [of 35 7] by simp
  have e: "np_le (Fin (43 / 16)) (round64 (exp 1))" "np_le (round64 (exp 1)) (Fin (11 / 4))"
    using round64_mono [OF exp_one_bounds(1)] round64_mono [OF exp_one_bounds(2)]
    by (simp_all only: r1 r2)
  have d: "np_le (Fin (59 / 16)) (np_add (Fin 1) (round64 (exp 1)))"
          "np_le (np_add (Fin 1) (round64 (exp 1))) (Fin (15 / 4))"
    using np_add_mono_right [OF e(1), of 1] np_add_mono_right [OF e(2), of 1]
    by (simp_all add: r3 r4)
  then have d1: "np_le (Fin 1) (np_add (Fin 1) (round64 (exp 1)))"
    by (cases "np_add (Fin 1) (round64 (exp 1))") (simp_all add: np_le_simps)
  have up: "np_le (np_div (Fin 1) (np_add (Fin 1) (round64 (exp 1)))) (np_div (Fin 1) (Fin (59 / 16)))"
    by (rule np_recip_anti [OF _ d(1)]) (simp add: np_le_simps)
  have low: "np_le (np_div (Fin 1) (Fin (15 / 4))) (np_div (Fin 1) (np_add (Fin 1) (round64 (exp 1))))"
    by (rule np_recip_anti [OF d1 d(2)])
  have "np_le (round64 (17 / 64)) (round64 (4 / 15))" by (rule round64_mono) simp
  then have t1: "np_le (Fin (17 / 64)) (np_div (Fin 1) (Fin (15 / 4)))" by (simp add: r5)
  have "np_le (round64 (16 / 59)) (round64 (35 / 128))" by (rule round64_mono) simp
  then have t2: "np_le (np_div (Fin 1) (Fin (59 / 16))) (Fin (35 / 128))" by (simp add: r6)
  have "np_le (Fin (17 / 64)) (np_div (Fin 1) (np_add (Fin 1) (round64 (exp 1))))"
    using t1 low by (rule np_le_trans)
  moreover have "np_le (np_div (Fin 1) (np_add (Fin 1) (round64 (exp 1)))) (Fin (35 / 128))"
    using up t2 by (rule np_le_trans)
  ultimately show ?thesis
    unfolding logistic_zero
    by (cases "np_div (Fin 1) (np_add (Fin 1) (np_exp (Fin 1)))") (simp_all add: np_le_simps)
qed

section \<open>Auxiliary facts\<close>

lemma fitted_state_eq:
  "fitted_state lo hi =
     (\<lparr>forecaster = 0, coverage = Fin (95 / 100), fitted_forecaster = Some 1, is_fitted = True\<rparr>,
      [flat_forecaster lo hi,
       (flat_forecaster lo hi)\<lparr>fitted :=
          Some (\<lambda>fh cov. Inr (\<lambda>t k. if snd k = ''lower'' then Fin lo else Fin hi))\<rparr>])"
  by (simp add: fitted_state_def unfitted_state_def fit_def private_fit_def clone_def
      forecaster_fit_def flat_forecaster_def)

lemma fitted_state_ref: "fitted_forecaster (fst (fitted_state lo hi)) = Some 1"
  by (simp add: fitted_state_eq)

lemma flat_query:
  "predict_interval (snd (fitted_state lo hi) ! 1) fh cov =
     Inr (\<lambda>t k. if snd k = ''lower'' then Fin lo else Fin hi)"
  by (simp add: fitted_state_eq predict_interval_def flat_forecaster_def)

text \<open>With the interval query answered, both methods return a table; its cells are:\<close>

lemma private_predict_cell:
  assumes "fitted_forecaster (fst s) = Some a"
      and "predict_interval (snd s ! a) (index X) (coverage (fst s)) = Inr P"
  shows "private_predict X s =
           Inr \<lparr>index = index X, columns = columns X,
                cell = (\<lambda>t c. if np_lt (cell X t c) (P t (c, ''lower''))
                                 \<or> np_lt (P t (c, ''upper'')) (cell X t c) then 1 else 0)\<rparr>"
  using assms by (cases s) (simp add: private_predict_def xs_def np_gt_def)





lemma private_predict_proba_cell:
  assumes "fitted_forecaster (fst s) = Some a"
      and "predict_interval (snd s ! a) (index X) (coverage (fst s)) = Inr P"
  shows "private_predict_proba X s =
           Inr \<lparr>index = index X, columns = columns X,
                cell = (\<lambda>t c. logistic (z_score (cell X t c) (P t (c, ''lower'')) (P t (c, ''upper''))))\<rparr>"
  using assms by (cases s) (simp add: private_predict_proba_def xs_def logistic_def z_score_def)

lemma private_predict_proba_at:
  assumes "fitted_forecaster (fst s) = Some a"
      and "predict_interval (snd s ! a) (index X) (coverage (fst s)) = Inr P"
      and "cell X t c = Fin v"
      and "P t (c, ''lower'') = Fin lo"
      and "P t (c, ''upper'') = Fin hi"
  shows "cell_at (private_predict_proba X s) t c = Inr (logistic (z_score (Fin v) (Fin lo) (Fin hi)))"
  using assms(3-5) by (simp add: private_predict_proba_cell [OF assms(1,2)] cell_at_def)




text \<open>The distance with the centre and the half-width as they are computed.\<close>

lemma z_score_computed:
  assumes "np_div (np_add (Fin hi) (Fin lo)) (Fin 2) = Fin c"
      and "np_div (np_sub (Fin hi) (Fin lo)) (Fin 2) = Fin w"
  shows "z_score (Fin v) (Fin lo) (Fin hi) = np_div (round64 \<bar>v - c\<bar>) (Fin w)"
  unfolding z_score_def assms by (simp add: np_sub_def np_abs_round64)

lemma z_score_mono:
  assumes "np_div (np_add (Fin hi) (Fin lo)) (Fin 2) = Fin c"
      and "np_div (np_sub (Fin hi) (Fin lo)) (Fin 2) = Fin w"
      and "0 < w" and "\<bar>v1 - c\<bar> \<le> \<bar>v2 - c\<bar>"
  shows "np_le (z_score (Fin v1) (Fin lo) (Fin hi)) (z_score (Fin v2) (Fin lo) (Fin hi))"
  unfolding z_score_computed [OF assms(1,2)]
  using assms(3) round64_mono [OF assms(4)] by (rule np_div_mono_left)

lemma centre_not_nan: "np_div (np_add (Fin hi) (Fin lo)) (Fin 2) \<noteq> NaN"
  by (cases "round64 (hi + lo)") (simp_all add: round64_not_nan)

lemma np_abs_nonneg: "x \<noteq> NaN \<Longrightarrow> np_le (Fin 0) (np_abs x)"
  by (cases x) (simp_all add: np_le_simps)

lemma z_score_nonneg:
  assumes "np_div (np_sub (Fin hi) (Fin lo)) (Fin 2) = Fin w" and "0 < w"
  shows "np_le (Fin 0) (z_score (Fin v) (Fin lo) (Fin hi))"
proof -
  have "np_sub (Fin v) (np_div (np_add (Fin hi) (Fin lo)) (Fin 2)) \<noteq> NaN"
    using centre_not_nan [of hi lo]
    by (cases "np_div (np_add (Fin hi) (Fin lo)) (Fin 2)") (simp_all add: np_sub_def round64_not_nan)
  then have "np_le (Fin 0) (np_abs (np_sub (Fin v) (np_div (np_add (Fin hi) (Fin lo)) (Fin 2))))"
    by (rule np_abs_nonneg)
  then have "np_le (np_div (Fin 0) (Fin w))
       (np_div (np_abs (np_sub (Fin v) (np_div (np_add (Fin hi) (Fin lo)) (Fin 2)))) (Fin w))"
    using assms(2) by (intro np_div_mono_left)
  then show ?thesis
    using assms(2) by (simp add: z_score_def assms(1) round64_zero)
qed


text \<open>An interval one unit in the last place wide: its centre is rounded onto the lower bound.\<close>

lemma z_score_ulp_interval:
  "z_score (Fin (1 + 1 / 2 ^ 52)) (Fin 1) (Fin (1 + 1 / 2 ^ 52)) = Fin 2"
  "z_score (Fin 1) (Fin 1) (Fin (1 + 1 / 2 ^ 52)) = Fin 0"
proof -
  have "1 + 1 / 2 ^ 52 + 1 = (2 + 1 / 2 ^ 52 :: real)" by simp
  then have "np_add (Fin (1 + 1 / 2 ^ 52)) (Fin 1) = Fin 2"
    by (simp only: np_add.simps round64_tie_two)
  then have c: "np_div (np_add (Fin (1 + 1 / 2 ^ 52)) (Fin 1)) (Fin 2) = Fin 1"
    by (simp add: round64_one)
  have "1 + 1 / 2 ^ 52 + - 1 = (1 / 2 ^ 52 :: real)" by simp
  moreover have "round64 (1 / 2 ^ 52) = Fin (1 / 2 ^ 52)" using round64_dyadic [of 1 52] by simp
  ultimately have d: "np_sub (Fin (1 + 1 / 2 ^ 52)) (Fin 1) = Fin (1 / 2 ^ 52)"
    by (simp only: np_sub_def np_neg.simps np_add.simps)
  have "1 / 2 ^ 52 / 2 = (1 / 2 ^ 53 :: real)" by simp
  moreover have "round64 (1 / 2 ^ 53) = Fin (1 / 2 ^ 53)" using round64_dyadic [of 1 53] by simp
  ultimately have w: "np_div (Fin (1 / 2 ^ 52)) (Fin 2) = Fin (1 / 2 ^ 53)"
    by simp
  have "1 / 2 ^ 52 / (1 / 2 ^ 53) = (2::real)" by simp
  then have q: "np_div (Fin (1 / 2 ^ 52)) (Fin (1 / 2 ^ 53)) = Fin 2"
    using round64_numeral [of "Num.Bit0 Num.One"] by simp
  show "z_score (Fin (1 + 1 / 2 ^ 52)) (Fin 1) (Fin (1 + 1 / 2 ^ 52)) = Fin 2"
    unfolding z_score_def c d w using q by simp
  have "np_sub (Fin 1) (Fin 1) = Fin 0" by (simp add: np_sub_def round64_zero)
  then show "z_score (Fin 1) (Fin 1) (Fin (1 + 1 / 2 ^ 52)) = Fin 0"
    unfolding z_score_def c d w by (simp add: round64_zero)
qed


lemma logistic_zero_lt_two: "np_lt (logistic (Fin 0)) (logistic (Fin 2))"
proof -
  obtain c where "logistic (Fin 0) = Fin c" "c \<le> 35 / 128" using logistic_zero_bounds by blast
  then show ?thesis
    using logistic_two_ge by (cases "logistic (Fin 2)") (simp_all add: np_le_simps)
qed

section \<open>Labels\<close>

text \<open>
  C1, as stated: for every fitted detector, every query point and all bounds the interval
  source returns, degenerate ones with upper <= lower included, the label is 1 exactly
  when the value is strictly outside the interval, and a value equal to the lower or the
  upper bound is labelled 0. The last part fails for inverted bounds: with lower = 5 and
  upper = 3 the value 5 equals the lower bound, lies above the upper bound, and is
  labelled 1 by the test \<^verbatim>\<open>(X < lower) | (X > upper)\<close>.
\<close>

theorem predict_bound_value_inverted_counterexample:
  "cell_at (private_predict (series [5]) (fitted_state 5 3)) 0 ''y'' = Inr 1"
proof -
  have h2: "predict_interval (snd (fitted_state 5 3) ! 1) (index (series [5]))
              (coverage (fst (fitted_state 5 3))) =
            Inr (\<lambda>t k. if snd k = ''lower'' then Fin 5 else Fin 3)"
    by (rule flat_query)
  show ?thesis
    unfolding private_predict_cell [OF fitted_state_ref h2] cell_at_def
    by (simp add: series_def)
qed

text \<open>
  C1, amended: for every detector whose fitted forecaster answers the interval query,
  every query point and all finite bounds lower, upper (upper <= lower included),
  \<^verbatim>\<open>_predict\<close> returns a table, without error, whose label at the point is 1 exactly when
  the value is below lower or above upper, and 0 otherwise; a value equal to the lower or
  the upper bound is labelled 0 whenever lower <= upper.
\<close>

theorem predict_label_strictly_outside:
  assumes "fitted_forecaster (fst s) = Some a"
      and "predict_interval (snd s ! a) (index X) (coverage (fst s)) = Inr P"
      and "cell X t c = Fin v"
      and "P t (c, ''lower'') = Fin lo"
      and "P t (c, ''upper'') = Fin hi"
  shows "cell_at (private_predict X s) t c = Inr (if v < lo \<or> hi < v then 1 else 0)
       \<and> (lo \<le> hi \<and> (v = lo \<or> v = hi) \<longrightarrow> cell_at (private_predict X s) t c = Inr 0)"
  using assms(3-5) by (auto simp: private_predict_cell [OF assms(1,2)] cell_at_def)

theorem predict_label_strictly_outside_witness:
  "fitted_forecaster (fst (fitted_state 5 5)) = Some 1
   \<and> cell (series [5]) 0 ''y'' = Fin 5
   \<and> (5::real) \<le> 5
   \<and> cell_at (private_predict (series [5]) (fitted_state 5 5)) 0 ''y'' = Inr 0"
proof -
  have h2: "predict_interval (snd (fitted_state 5 5) ! 1) (index (series [5]))
              (coverage (fst (fitted_state 5 5))) =
            Inr (\<lambda>t k. if snd k = ''lower'' then Fin 5 else Fin 5)"
    by (rule flat_query)
  have h3: "cell (series [5]) 0 ''y'' = Fin 5"
    by (simp add: series_def)
  show ?thesis
    using predict_label_strictly_outside [OF fitted_state_ref h2 h3, of 5 5] fitted_state_ref h3
    by simp
qed

section \<open>Scores\<close>




text \<open>
  C3: with a zero-width interval (upper = lower) the score is meant to be well defined.
  The division by the half-width is unguarded: where the value equals the centre the code
  computes 0 / 0, and NaN is returned as the score. Where the value differs from the
  centre the distance is infinite and the score is 1. Evaluated at lower = upper = 5 for
  the values 5 and 7:
\<close>

theorem predict_proba_zero_width_nan:
  "cell_at (private_predict_proba (series [5, 7]) (fitted_state 5 5)) 0 ''y'' = Inr NaN
   \<and> cell_at (private_predict_proba (series [5, 7]) (fitted_state 5 5)) 1 ''y'' = Inr (Fin 1)"
proof -
  have h2: "predict_interval (snd (fitted_state 5 5) ! 1) (index (series [5, 7]))
              (coverage (fst (fitted_state 5 5))) =
            Inr (\<lambda>t k. if snd k = ''lower'' then Fin 5 else Fin 5)"
    by (rule flat_query)
  show ?thesis
    unfolding private_predict_proba_cell [OF fitted_state_ref h2] cell_at_def
    by (simp add: series_def logistic_def z_score_def np_sub_def float_simps)
qed




text \<open>
  C5, as stated: for fixed bounds lower < upper the score is non-decreasing in
  |value - center| with center = (upper + lower) / 2. With lower = 1 and upper = 1 + 2^-52
  the two bounds are at the same distance from the centre, but the centre is computed as 1
  (see C2): the value on the upper bound gets the score at z = 2, the value on the lower
  bound the smaller score at z = 0.
\<close>

theorem score_monotone_exact_centre_counterexample:
  "\<bar>(1 + 1 / 2 ^ 52) - ((1 + 1 / 2 ^ 52) + 1) / 2\<bar> \<le> \<bar>1 - ((1 + 1 / 2 ^ 52) + 1) / (2::real)\<bar>
   \<and> cell_at (private_predict_proba (series [1 + 1 / 2 ^ 52, 1]) (fitted_state 1 (1 + 1 / 2 ^ 52))) 0 ''y''
       = Inr (logistic (Fin 2))
   \<and> cell_at (private_predict_proba (series [1 + 1 / 2 ^ 52, 1]) (fitted_state 1 (1 + 1 / 2 ^ 52))) 1 ''y''
       = Inr (logistic (Fin 0))
   \<and> np_lt (logistic (Fin 0)) (logistic (Fin 2))"
proof -
  have h2: "predict_interval (snd (fitted_state 1 (1 + 1 / 2 ^ 52)) ! 1) (index (series [1 + 1 / 2 ^ 52, 1]))
              (coverage (fst (fitted_state 1 (1 + 1 / 2 ^ 52)))) =
            Inr (\<lambda>t k. if snd k = ''lower'' then Fin 1 else Fin (1 + 1 / 2 ^ 52))"
    by (rule flat_query)
  have h3: "cell (series [1 + 1 / 2 ^ 52, 1]) 0 ''y'' = Fin (1 + 1 / 2 ^ 52)"
    by (simp add: series_def)
  have h4: "cell (series [1 + 1 / 2 ^ 52, 1]) 1 ''y'' = Fin 1"
    by (simp add: series_def)
  have a: "cell_at (private_predict_proba (series [1 + 1 / 2 ^ 52, 1]) (fitted_state 1 (1 + 1 / 2 ^ 52))) 0 ''y''
          = Inr (logistic (z_score (Fin (1 + 1 / 2 ^ 52)) (Fin 1) (Fin (1 + 1 / 2 ^ 52))))"
    by (rule private_predict_proba_at [OF fitted_state_ref h2 h3]) simp_all
  have b: "cell_at (private_predict_proba (series [1 + 1 / 2 ^ 52, 1]) (fitted_state 1 (1 + 1 / 2 ^ 52))) 1 ''y''
          = Inr (logistic (z_score (Fin 1) (Fin 1) (Fin (1 + 1 / 2 ^ 52))))"
    by (rule private_predict_proba_at [OF fitted_state_ref h2 h4]) simp_all
  have d: "\<bar>(1 + 1 / 2 ^ 52) - ((1 + 1 / 2 ^ 52) + 1) / 2\<bar> \<le> \<bar>1 - ((1 + 1 / 2 ^ 52) + 1) / (2::real)\<bar>"
    by simp
  show ?thesis
    using a b d by (simp only: z_score_ulp_interval logistic_zero_lt_two simp_thms)
qed

text \<open>
  C5, amended: for fixed bounds whose computed half-width is positive and whose computed
  centre c (the float64 value of (upper + lower) / 2) is finite, the score is
  non-decreasing in the distance from the computed centre: of two query points with these
  bounds (in one query or in two), the one whose value is at least as far from c has at
  least the score of the other.
\<close>

theorem score_monotone_in_distance:
  assumes "fitted_forecaster (fst s) = Some a"
      and "predict_interval (snd s ! a) (index X1) (coverage (fst s)) = Inr P1"
      and "predict_interval (snd s ! a) (index X2) (coverage (fst s)) = Inr P2"
      and "cell X1 t1 c1 = Fin v1"
      and "cell X2 t2 c2 = Fin v2"
      and "P1 t1 (c1, ''lower'') = Fin lo" and "P1 t1 (c1, ''upper'') = Fin hi"
      and "P2 t2 (c2, ''lower'') = Fin lo" and "P2 t2 (c2, ''upper'') = Fin hi"
      and "np_div (np_add (Fin hi) (Fin lo)) (Fin 2) = Fin c"
      and "np_div (np_sub (Fin hi) (Fin lo)) (Fin 2) = Fin w"
      and "0 < w"
      and "\<bar>v1 - c\<bar> \<le> \<bar>v2 - c\<bar>"
  shows "\<exists>p1 p2. cell_at (private_predict_proba X1 s) t1 c1 = Inr (Fin p1)
               \<and> cell_at (private_predict_proba X2 s) t2 c2 = Inr (Fin p2)
               \<and> p1 \<le> p2"
proof -
  let ?z1 = "z_score (Fin v1) (Fin lo) (Fin hi)" and ?z2 = "z_score (Fin v2) (Fin lo) (Fin hi)"
  have z: "np_le ?z1 ?z2" by (rule z_score_mono [OF assms(10-13)])
  then have nn: "?z1 \<noteq> NaN" "?z2 \<noteq> NaN" by (auto simp: np_le_def)
  obtain p1 p2 where p: "logistic ?z1 = Fin p1" "logistic ?z2 = Fin p2"
    using logistic_range [OF nn(1)] logistic_range [OF nn(2)] by blast
  have "np_le (logistic ?z1) (logistic ?z2)" using z by (rule logistic_mono)
  then have "p1 \<le> p2" by (simp add: p np_le_simps)
  then show ?thesis
    using private_predict_proba_at [OF assms(1,2,4,6,7)] private_predict_proba_at [OF assms(1,3,5,8,9)] p
    by simp
qed

theorem score_monotone_in_distance_witness:
  "fitted_forecaster (fst (fitted_state 8 12)) = Some 1
   \<and> cell (series [11, 50]) 0 ''y'' = Fin 11
   \<and> cell (series [11, 50]) 1 ''y'' = Fin 50
   \<and> np_div (np_add (Fin 12) (Fin 8)) (Fin 2) = Fin 10
   \<and> np_div (np_sub (Fin 12) (Fin 8)) (Fin 2) = Fin 2
   \<and> (0::real) < 2
   \<and> \<bar>11 - 10\<bar> \<le> \<bar>50 - (10::real)\<bar>
   \<and> (\<exists>p1 p2. cell_at (private_predict_proba (series [11, 50]) (fitted_state 8 12)) 0 ''y'' = Inr (Fin p1)
             \<and> cell_at (private_predict_proba (series [11, 50]) (fitted_state 8 12)) 1 ''y'' = Inr (Fin p2)
             \<and> p1 \<le> p2)"
proof -
  have h2: "predict_interval (snd (fitted_state 8 12) ! 1) (index (series [11, 50]))
              (coverage (fst (fitted_state 8 12))) =
            Inr (\<lambda>t k. if snd k = ''lower'' then Fin 8 else Fin 12)"
    by (rule flat_query)
  have h3: "cell (series [11, 50]) 0 ''y'' = Fin 11"
    by (simp add: series_def)
  have h4: "cell (series [11, 50]) 1 ''y'' = Fin 50"
    by (simp add: series_def)
  have c: "np_div (np_add (Fin 12) (Fin 8)) (Fin 2) = Fin 10"
    by (simp add: float_simps)
  have w: "np_div (np_sub (Fin 12) (Fin 8)) (Fin 2) = Fin 2"
    by (simp add: np_sub_def float_simps)
  show ?thesis
    using score_monotone_in_distance [OF fitted_state_ref h2 h2 h3 h4 _ _ _ _ c w]
      fitted_state_ref h3 h4 c w
    by simp
qed

text \<open>
  C10, as stated: for every query point with upper > lower the score is at least
  1 / (1 + e) and strictly below 1 for every finite value. In float64 the score of a
  distant finite value is exactly 1: with the bounds 8 and 12 the value 150 has z = 70,
  exp (- 69) is below half a unit in the last place of 1, and 1 / (1 + exp (- 69))
  evaluates to 1.
\<close>

theorem predict_proba_far_value_counterexample:
  "cell_at (private_predict_proba (series [150]) (fitted_state 8 12)) 0 ''y'' = Inr (Fin 1)"
proof -
  have h2: "predict_interval (snd (fitted_state 8 12) ! 1) (index (series [150]))
              (coverage (fst (fitted_state 8 12))) =
            Inr (\<lambda>t k. if snd k = ''lower'' then Fin 8 else Fin 12)"
    by (rule flat_query)
  have h3: "cell (series [150]) 0 ''y'' = Fin 150"
    by (simp add: series_def)
  have "z_score (Fin 150) (Fin 8) (Fin 12) = Fin 70"
    by (simp add: z_score_def np_sub_def float_simps)
  then have "logistic (z_score (Fin 150) (Fin 8) (Fin 12)) = Fin 1"
    by (simp add: logistic_far np_le_simps)
  moreover have "cell_at (private_predict_proba (series [150]) (fitted_state 8 12)) 0 ''y''
          = Inr (logistic (z_score (Fin 150) (Fin 8) (Fin 12)))"
    by (rule private_predict_proba_at [OF fitted_state_ref h2 h3]) simp_all
  ultimately show ?thesis by simp
qed

text \<open>
  C10, amended: for every query point with finite value and bounds whose computed
  half-width is positive, the score lies between the float64 value of 1 / (1 + e), which
  is the score at z = 0 and lies between 17/64 and 35/128 (about 0.27), and 1, both
  included; the lower end is taken where the value equals the computed centre.
\<close>

theorem score_bounded_below:
  assumes "fitted_forecaster (fst s) = Some a"
      and "predict_interval (snd s ! a) (index X) (coverage (fst s)) = Inr P"
      and "cell X t c = Fin v"
      and "P t (c, ''lower'') = Fin lo"
      and "P t (c, ''upper'') = Fin hi"
      and "np_div (np_sub (Fin hi) (Fin lo)) (Fin 2) = Fin w"
      and "0 < w"
  shows "\<exists>p c0. cell_at (private_predict_proba X s) t c = Inr (Fin p)
           \<and> np_div (Fin 1) (np_add (Fin 1) (np_exp (Fin 1))) = Fin c0
           \<and> 17 / 64 \<le> c0 \<and> c0 \<le> 35 / 128
           \<and> c0 \<le> p \<and> p \<le> 1
           \<and> (np_div (np_add (Fin hi) (Fin lo)) (Fin 2) = Fin v \<longrightarrow> p = c0)"
proof -
  let ?z = "z_score (Fin v) (Fin lo) (Fin hi)"
  have z: "np_le (Fin 0) ?z" by (rule z_score_nonneg [OF assms(6,7)])
  then have "?z \<noteq> NaN" by (auto simp: np_le_def)
  then obtain p where p: "logistic ?z = Fin p" "p \<le> 1" using logistic_range by blast
  obtain c0 where c0: "logistic (Fin 0) = Fin c0" "17 / 64 \<le> c0" "c0 \<le> 35 / 128"
    using logistic_zero_bounds by blast
  have "np_le (logistic (Fin 0)) (logistic ?z)" using z by (rule logistic_mono)
  then have low: "c0 \<le> p" by (simp add: p c0 np_le_simps)
  have mid: "p = c0" if "np_div (np_add (Fin hi) (Fin lo)) (Fin 2) = Fin v"
  proof -
    have "?z = Fin 0"
      using assms(7) by (simp add: z_score_computed [OF that assms(6)] round64_zero)
    then show ?thesis using p c0 by simp
  qed
  have sc: "cell_at (private_predict_proba X s) t c = Inr (Fin p)"
    using private_predict_proba_at [OF assms(1-5)] p by simp
  show ?thesis
    using sc c0 low p(2) mid unfolding logistic_zero by blast
qed

theorem score_bounded_below_witness:
  "fitted_forecaster (fst (fitted_state 8 12)) = Some 1
   \<and> cell (series [10]) 0 ''y'' = Fin 10
   \<and> np_div (np_sub (Fin 12) (Fin 8)) (Fin 2) = Fin 2
   \<and> (0::real) < 2
   \<and> np_div (np_add (Fin 12) (Fin 8)) (Fin 2) = Fin 10
   \<and> cell_at (private_predict_proba (series [10]) (fitted_state 8 12)) 0 ''y''
       = Inr (np_div (Fin 1) (np_add (Fin 1) (np_exp (Fin 1))))"
proof -
  have h2: "predict_interval (snd (fitted_state 8 12) ! 1) (index (series [10]))
              (coverage (fst (fitted_state 8 12))) =
            Inr (\<lambda>t k. if snd k = ''lower'' then Fin 8 else Fin 12)"
    by (rule flat_query)
  have h3: "cell (series [10]) 0 ''y'' = Fin 10"
    by (simp add: series_def)
  have c: "np_div (np_add (Fin 12) (Fin 8)) (Fin 2) = Fin 10"
    by (simp add: float_simps)
  have w: "np_div (np_sub (Fin 12) (Fin 8)) (Fin 2) = Fin 2"
    by (simp add: np_sub_def float_simps)
  show ?thesis
    using score_bounded_below [OF fitted_state_ref h2 h3 _ _ w] fitted_state_ref h3 c w
    by auto
qed

section \<open>Construction\<close>

text \<open>
  C6, as stated: construction fails exactly when the coverage does not satisfy
  0 < coverage < 1 or the collaborator does not declare the prediction-interval
  capability. The constructor checks the class of the collaborator first: an object that
  is not a BaseForecaster instance is rejected although it declares the capability and the
  coverage 0.5 is valid.
\<close>

theorem init_tagged_other_counterexample:
  "pred_int_tag ([tagged_other] ! 0)
   \<and> np_lt (Fin 0) (Fin (1 / 2)) \<and> np_lt (Fin (1 / 2)) (Fin 1)
   \<and> fst (init [tagged_other] 0 (Fin (1 / 2))) =
       Inl (ValueError ''forecaster must be a BaseForecaster instance'')"
  by (simp add: init_def tagged_other_def flat_forecaster_def)

text \<open>
  C6, amended: construction fails, with a ValueError, exactly when the collaborator is
  not a BaseForecaster instance, or does not declare the prediction-interval capability,
  or the coverage does not satisfy 0 < coverage < 1; the coverages 0, 1, -0.1 and 1.5 fail
  for every collaborator; otherwise the detector stores the template reference and the
  coverage and is not fitted; in every case the store, and with it the template, is as it
  was.
\<close>

theorem init_fails_iff_invalid:
  "(\<exists>msg. fst (init h fc cov) = Inl (ValueError msg))
     = (\<not> is_base_forecaster (h ! fc) \<or> \<not> pred_int_tag (h ! fc)
        \<or> \<not> (np_lt (Fin 0) cov \<and> np_lt cov (Fin 1)))
   \<and> (is_base_forecaster (h ! fc) \<and> pred_int_tag (h ! fc)
        \<and> np_lt (Fin 0) cov \<and> np_lt cov (Fin 1) \<longrightarrow>
          fst (init h fc cov) =
            Inr \<lparr>forecaster = fc, coverage = cov, fitted_forecaster = None, is_fitted = False\<rparr>)
   \<and> snd (init h fc cov) = h
   \<and> (\<exists>msg. fst (init h fc (Fin 0)) = Inl (ValueError msg))
   \<and> (\<exists>msg. fst (init h fc (Fin 1)) = Inl (ValueError msg))
   \<and> (\<exists>msg. fst (init h fc (Fin (- (1 / 10)))) = Inl (ValueError msg))
   \<and> (\<exists>msg. fst (init h fc (Fin (3 / 2))) = Inl (ValueError msg))"
  by (simp add: init_def)

theorem init_fails_iff_invalid_witness:
  "is_base_forecaster ([flat_forecaster 8 12] ! 0)
   \<and> pred_int_tag ([flat_forecaster 8 12] ! 0)
   \<and> np_lt (Fin 0) (Fin (95 / 100)) \<and> np_lt (Fin (95 / 100)) (Fin 1)
   \<and> init [flat_forecaster 8 12] 0 (Fin (95 / 100)) =
       (Inr \<lparr>forecaster = 0, coverage = Fin (95 / 100), fitted_forecaster = None, is_fitted = False\<rparr>,
        [flat_forecaster 8 12])"
proof -
  have h1: "is_base_forecaster ([flat_forecaster 8 12] ! 0)"
    by (simp add: flat_forecaster_def)
  have h2: "pred_int_tag ([flat_forecaster 8 12] ! 0)"
    by (simp add: flat_forecaster_def)
  show ?thesis
    using init_fails_iff_invalid [of "[flat_forecaster 8 12]" 0 "Fin (95 / 100)"] h1 h2
    by (simp add: prod_eq_iff)
qed

text \<open>
  C9: construction rejects every object that is not a BaseForecaster instance, whatever
  its capability tag and whatever the coverage: the error is the one of the type check,
  which therefore comes before the other two checks.
\<close>

theorem init_rejects_non_forecaster:
  assumes "\<not> is_base_forecaster (h ! fc)"
  shows "init h fc cov = (Inl (ValueError ''forecaster must be a BaseForecaster instance''), h)"
  using assms by (simp add: init_def)

theorem init_rejects_non_forecaster_witness:
  "\<not> is_base_forecaster ([tagged_other] ! 0)
   \<and> pred_int_tag ([tagged_other] ! 0)
   \<and> init [tagged_other] 0 (Fin (95 / 100)) =
       (Inl (ValueError ''forecaster must be a BaseForecaster instance''), [tagged_other])"
proof -
  have h1: "\<not> is_base_forecaster ([tagged_other] ! 0)"
    by (simp add: tagged_other_def)
  have h2: "pred_int_tag ([tagged_other] ! 0)"
    by (simp add: tagged_other_def flat_forecaster_def)
  show ?thesis
    using init_rejects_non_forecaster [OF h1, of "Fin (95 / 100)"] h1 h2 by simp
qed

section \<open>Fitting\<close>





end
